theory Spec2Isabelle
  imports Complex_Main "HOL-Library.Sublist" "HOL-Library.Char_ord" "HOL-Library.List_Lexorder"
begin

section \<open>Python values shared by the modules\<close>

text \<open>
  Prices and thresholds are Python floats. They are modelled as real numbers, and NaN and
  the infinities are outside the model. Comparison is exact. In \<^verbatim>\<open>utils/db.py\<close> the
  exact difference and quotient stand for the float ones. The discount of
  \<^verbatim>\<open>scrape_product\<close> is rounded to two decimals, and there the rounding of each float
  operation decides which way the second decimal falls: its operations round their exact
  result to double precision. Every exception the modelled code can raise on such values is
  a value of \<open>error\<close>.
\<close>

datatype error = ZeroDivisionError | AttributeError | ValueError

text \<open>Python's \<^verbatim>\<open>a / b\<close> on floats, with the exact quotient.\<close>

definition py_truediv :: "real \<Rightarrow> real \<Rightarrow> error + real" where
  "py_truediv a b = (if b = 0 then Inl ZeroDivisionError else Inr (a / b))"

text \<open>The nearest integer, an exact tie going to the even neighbour.\<close>

definition round_half_even :: "real \<Rightarrow> int" where
  "round_half_even x =
     (let f = \<lfloor>x\<rfloor>; d = x - of_int f
      in if d < 1 / 2 then f
         else if d > 1 / 2 then f + 1
         else if even f then f else f + 1)"

text \<open>
  Double precision: a number is rounded to the nearest one with a significand of 53 bits,
  an exact tie going to the even significand. \<open>binary_exponent x\<close> is the \<open>e\<close> with
  \<open>2\<^sup>e \<le> x < 2\<^sup>e\<^sup>+\<^sup>1\<close> for a positive \<open>x\<close>. The range of the exponent is not
  bounded: there is no overflow and no subnormal number.
\<close>

fun bit_length :: "nat \<Rightarrow> nat" where
  "bit_length n = (if n = 0 then 0 else Suc (bit_length (n div 2)))"

declare bit_length.simps [simp del]

definition binary_exponent :: "real \<Rightarrow> int" where
  "binary_exponent x =
     (if 1 \<le> x then int (bit_length (nat \<lfloor>x\<rfloor>)) - 1
      else - int (bit_length (nat (\<lceil>1 / x\<rceil> - 1))))"

definition pow2 :: "int \<Rightarrow> real" where
  "pow2 k = (if 0 \<le> k then 2 ^ nat k else 1 / 2 ^ nat (- k))"

definition round_to_double :: "real \<Rightarrow> real" where
  "round_to_double x =
     (if x = 0 then 0
      else (let ulp = pow2 (binary_exponent \<bar>x\<bar> - 52)
            in of_int (round_half_even (x / ulp)) * ulp))"

text \<open>Python's \<^verbatim>\<open>a - b\<close>, \<^verbatim>\<open>a * b\<close> and \<^verbatim>\<open>a / b\<close> on floats, rounded as the machine rounds them.\<close>

definition float_sub :: "real \<Rightarrow> real \<Rightarrow> real" where
  "float_sub a b = round_to_double (a - b)"

definition float_mul :: "real \<Rightarrow> real \<Rightarrow> real" where
  "float_mul a b = round_to_double (a * b)"

definition float_div :: "real \<Rightarrow> real \<Rightarrow> error + real" where
  "float_div a b = (if b = 0 then Inl ZeroDivisionError else Inr (round_to_double (a / b)))"

text \<open>
  Python's \<^verbatim>\<open>round(x, 2)\<close> on a float: the exact value of \<open>x\<close> is rounded to two
  decimals, an exact tie going to the even neighbour, and the result is the double nearest
  to that decimal number.
\<close>

definition py_round2 :: "real \<Rightarrow> real" where
  "py_round2 x = round_to_double (of_int (round_half_even (x * 100)) / 100)"

text \<open>Python's \<^verbatim>\<open>needle in haystack\<close> on strings.\<close>

fun contains :: "string \<Rightarrow> string \<Rightarrow> bool" where
  "contains needle [] = (needle = [])"
| "contains needle (c # cs) = (prefix needle (c # cs) \<or> contains needle cs)"

section \<open>utils/common.py\<close>

text \<open>
  A product as \<^verbatim>\<open>fetch_products\<close> returns it: the dict with keys name, url, platform,
  threshold.
\<close>

record product =
  pr_name :: string
  pr_url :: string
  pr_platform :: string
  pr_threshold :: real

text \<open>
  One row of \<^verbatim>\<open>csv.DictReader\<close>: a dict from column names to cells. A column that the
  header does not have is no key of the dict; a cell that a short line leaves out is the
  value \<^verbatim>\<open>None\<close>. Characters are code points below 256.
\<close>

type_synonym csv_row = "string \<rightharpoonup> string option"

text \<open>
  What \<^verbatim>\<open>open(PRODUCTS_FILE)\<close> and the reader find: no file, any other failure of
  opening, decoding or parsing, or the rows.
\<close>

datatype catalog = File_not_found | Unreadable | Csv_rows "csv_row list"

definition py_str :: "string option \<Rightarrow> string" where
  "py_str v = (case v of None \<Rightarrow> ''None'' | Some s \<Rightarrow> s)"

definition is_space :: "char \<Rightarrow> bool" where
  "is_space c \<longleftrightarrow> c \<in> set [CHR 0x09, CHR 0x0A, CHR 0x0B, CHR 0x0C, CHR 0x0D,
                            CHR 0x1C, CHR 0x1D, CHR 0x1E, CHR 0x1F, CHR 0x20, CHR 0x85, CHR 0xA0]"

definition strip :: "string \<Rightarrow> string" where
  "strip s = rev (dropWhile is_space (rev (dropWhile is_space s)))"

definition is_digit :: "char \<Rightarrow> bool" where
  "is_digit c \<longleftrightarrow> c \<in> set ''0123456789''"

text \<open>
  \<^verbatim>\<open>s.lower()\<close> on code points below 256: the letters A to Z, and the capital letters
  of Latin-1 (C0 to DE without the multiplication sign D7).
\<close>

definition upper_case :: string where
  "upper_case = ''ABCDEFGHIJKLMNOPQRSTUVWXYZ'' @
     [CHR 0xC0, CHR 0xC1, CHR 0xC2, CHR 0xC3, CHR 0xC4, CHR 0xC5, CHR 0xC6, CHR
      0xC7, CHR 0xC8, CHR 0xC9, CHR 0xCA, CHR 0xCB, CHR 0xCC, CHR 0xCD, CHR 0xCE,
      CHR 0xCF, CHR 0xD0, CHR 0xD1, CHR 0xD2, CHR 0xD3, CHR 0xD4, CHR 0xD5, CHR
      0xD6, CHR 0xD8, CHR 0xD9, CHR 0xDA, CHR 0xDB, CHR 0xDC, CHR 0xDD, CHR 0xDE]"

definition lower_case :: string where
  "lower_case = ''abcdefghijklmnopqrstuvwxyz'' @
     [CHR 0xE0, CHR 0xE1, CHR 0xE2, CHR 0xE3, CHR 0xE4, CHR 0xE5, CHR 0xE6, CHR
      0xE7, CHR 0xE8, CHR 0xE9, CHR 0xEA, CHR 0xEB, CHR 0xEC, CHR 0xED, CHR 0xEE,
      CHR 0xEF, CHR 0xF0, CHR 0xF1, CHR 0xF2, CHR 0xF3, CHR 0xF4, CHR 0xF5, CHR
      0xF6, CHR 0xF8, CHR 0xF9, CHR 0xFA, CHR 0xFB, CHR 0xFC, CHR 0xFD, CHR 0xFE]"

definition lower :: "string \<Rightarrow> string" where
  "lower s =
     map (\<lambda>c. case map_of (zip upper_case lower_case) c of Some l \<Rightarrow> l | None \<Rightarrow> c) s"

text \<open>\<^verbatim>\<open>re.sub(r'[^\d.]', '', s)\<close>.\<close>

definition re_sub_non_numeric :: "string \<Rightarrow> string" where
  "re_sub_non_numeric s = filter (\<lambda>c. is_digit c \<or> c = CHR ''.'') s"

definition digit_value :: "char \<Rightarrow> nat" where
  "digit_value c = of_char c - 48"

definition decimal :: "string \<Rightarrow> nat" where
  "decimal ds = foldl (\<lambda>a c. 10 * a + digit_value c) 0 ds"

text \<open>
  \<^verbatim>\<open>float(s)\<close> on the strings \<^verbatim>\<open>fetch_products\<close> passes to it, which are made of digits and
  points only: digits with at most one point and at least one digit, or \<^verbatim>\<open>ValueError\<close>.
  The value is the decimal number itself.
\<close>

definition py_float :: "string \<Rightarrow> error + real" where
  "py_float s =
     (let int_part = takeWhile (\<lambda>c. c \<noteq> CHR ''.'') s;
          rest = dropWhile (\<lambda>c. c \<noteq> CHR ''.'') s
      in if \<not> list_all is_digit int_part then Inl ValueError
         else (case rest of
                 [] \<Rightarrow> if int_part = [] then Inl ValueError
                       else Inr (of_nat (decimal int_part))
               | _ # frac_part \<Rightarrow>
                   if \<not> list_all is_digit frac_part \<or> (int_part = [] \<and> frac_part = [])
                   then Inl ValueError
                   else Inr (of_nat (decimal int_part)
                             + of_nat (decimal frac_part) / 10 ^ length frac_part)))"

text \<open>\<^verbatim>\<open>not row.get(key)\<close> is false for a cell that is a non-empty string.\<close>

definition present :: "csv_row \<Rightarrow> string \<Rightarrow> bool" where
  "present row key = (case row key of Some (Some s) \<Rightarrow> s \<noteq> [] | _ \<Rightarrow> False)"

text \<open>
  The string in a cell: \<^verbatim>\<open>row[key]\<close> of a cell that holds a string, and
  \<^verbatim>\<open>row.get(key, "")\<close> of a column that the header does not have.
\<close>

definition cell :: "csv_row \<Rightarrow> string \<Rightarrow> string" where
  "cell row key = (case row key of Some (Some s) \<Rightarrow> s | _ \<Rightarrow> [])"

text \<open>
  The \<^verbatim>\<open>for\<close> loop of \<^verbatim>\<open>fetch_products\<close> with its inner \<^verbatim>\<open>try\<close>: \<^verbatim>\<open>ValueError\<close> and
  \<^verbatim>\<open>KeyError\<close> skip the row, any other exception leaves the loop. The warnings it prints
  are left out.
\<close>

fun fetch_rows :: "csv_row list \<Rightarrow> product list \<Rightarrow> error + product list" where
  "fetch_rows [] products = Inr products"
| "fetch_rows (row # rows) products =
     (let threshold_str =
            strip (py_str (case row ''threshold'' of None \<Rightarrow> Some [] | Some v \<Rightarrow> v));
          threshold_clean = re_sub_non_numeric threshold_str
      in if threshold_clean = [] then fetch_rows rows products
         else (case py_float threshold_clean of
                 Inl ValueError \<Rightarrow> fetch_rows rows products
               | Inl err \<Rightarrow> Inl err
               | Inr threshold \<Rightarrow>
                   if \<not> present row ''name'' \<or> \<not> present row ''url''
                   then fetch_rows rows products
                   else (case row ''platform'' of
                           Some None \<Rightarrow> Inl AttributeError
                         | platform \<Rightarrow>
                             fetch_rows rows
                               (products @
                                [\<lparr> pr_name = strip (cell row ''name''),
                                    pr_url = strip (cell row ''url''),
                                    pr_platform = strip (lower (cell row ''platform'')),
                                    pr_threshold = threshold \<rparr>]))))"

text \<open>
  \<^verbatim>\<open>fetch_products()\<close>: the outer \<^verbatim>\<open>try\<close> turns \<^verbatim>\<open>FileNotFoundError\<close> and every other
  \<^verbatim>\<open>Exception\<close> into the empty list.
\<close>

definition fetch_products :: "catalog \<Rightarrow> error + product list" where
  "fetch_products file =
     (case file of
        File_not_found \<Rightarrow> Inr []
      | Unreadable \<Rightarrow> Inr []
      | Csv_rows rows \<Rightarrow> (case fetch_rows rows [] of Inl err \<Rightarrow> Inr [] | Inr products \<Rightarrow> Inr products))"

section \<open>utils/db.py\<close>

text \<open>
  A row of the table \<^verbatim>\<open>price_history\<close>; the table is the list of its rows in the order
  of insertion. \<^verbatim>\<open>original_price\<close> is \<^verbatim>\<open>NULL\<close> in rows older than the column. \<^verbatim>\<open>date\<close> is
  the text of a \<^verbatim>\<open>datetime\<close>, whose order is the order of time: a natural number.
\<close>

record price_row =
  ph_name :: string
  ph_url :: string
  ph_platform :: string
  ph_price :: real
  ph_original_price :: "real option"
  ph_threshold :: real
  ph_date :: nat

text \<open>\<^verbatim>\<open>SELECT MAX(price)\<close>: \<^verbatim>\<open>NULL\<close> over no rows.\<close>

fun sql_max :: "real list \<Rightarrow> real option" where
  "sql_max [] = None"
| "sql_max (x # xs) = Some (fold max xs x)"

definition rows_named :: "string \<Rightarrow> price_row list \<Rightarrow> price_row list" where
  "rows_named name price_history = filter (\<lambda>r. ph_name r = name) price_history"

text \<open>
  \<^verbatim>\<open>save_price\<close>; \<open>now\<close> is what \<^verbatim>\<open>datetime.now()\<close> returns. A float is false in a
  condition when it is 0.
\<close>

definition save_price ::
  "string \<Rightarrow> string \<Rightarrow> string \<Rightarrow> real \<Rightarrow> real \<Rightarrow> real option \<Rightarrow> nat
   \<Rightarrow> price_row list \<Rightarrow> price_row list" where
  "save_price name url platform price threshold original_price now price_history =
     (let original_price' =
            (case original_price of
               None \<Rightarrow>
                 (let max_price = sql_max (map ph_price (rows_named name price_history))
                  in (case max_price of
                        Some m \<Rightarrow> if m \<noteq> 0 \<and> m > price then m else price
                      | None \<Rightarrow> price))
             | Some given \<Rightarrow> given)
      in price_history @
         [\<lparr> ph_name = name, ph_url = url, ph_platform = platform, ph_price = price,
             ph_original_price = Some original_price', ph_threshold = threshold,
             ph_date = now \<rparr>])"

text \<open>A row of the \<^verbatim>\<open>SELECT\<close> of \<^verbatim>\<open>get_product_summary\<close>.\<close>

record summary_row =
  sr_name :: string
  sr_url :: string
  sr_platform :: string
  sr_current_price :: real
  sr_original_price :: "real option"
  sr_threshold :: real
  sr_date :: nat
  sr_previous_price :: "real option"

text \<open>
  \<^verbatim>\<open>ORDER BY date DESC\<close>: the sort is stable, so rows with equal dates stay in the order
  of insertion, as SQLite returns them.
\<close>

definition order_by_date_desc :: "price_row list \<Rightarrow> price_row list" where
  "order_by_date_desc rows = sort_key (\<lambda>r. - int (ph_date r)) rows"

text \<open>The subquery: \<^verbatim>\<open>ORDER BY date DESC LIMIT 1 OFFSET 1\<close>, \<^verbatim>\<open>NULL\<close> without a second row.\<close>

definition previous_price_of :: "price_row list \<Rightarrow> string \<Rightarrow> real option" where
  "previous_price_of price_history name =
     (case drop 1 (order_by_date_desc (rows_named name price_history)) of
        [] \<Rightarrow> None
      | ph2 # _ \<Rightarrow> Some (ph_price ph2))"

text \<open>\<^verbatim>\<open>SELECT name, MAX(date) as max_date FROM price_history GROUP BY name\<close>.\<close>

definition latest :: "price_row list \<Rightarrow> (string \<times> nat) list" where
  "latest price_history =
     map (\<lambda>n. (n, Max (set (map ph_date (rows_named n price_history)))))
         (remdups (map ph_name price_history))"

definition select_columns :: "price_row list \<Rightarrow> price_row \<Rightarrow> summary_row" where
  "select_columns price_history ph1 =
     \<lparr> sr_name = ph_name ph1, sr_url = ph_url ph1, sr_platform = ph_platform ph1,
       sr_current_price = ph_price ph1, sr_original_price = ph_original_price ph1,
       sr_threshold = ph_threshold ph1, sr_date = ph_date ph1,
       sr_previous_price = previous_price_of price_history (ph_name ph1) \<rparr>"

text \<open>
  The whole query: the join of every row with the latest date of its name, \<^verbatim>\<open>DISTINCT\<close>,
  \<^verbatim>\<open>ORDER BY ph1.name\<close> (bytewise, as SQLite compares text).
\<close>

definition summary_query :: "price_row list \<Rightarrow> summary_row list" where
  "summary_query price_history =
     sort_key sr_name
       (remdups [select_columns price_history ph1.
                   ph1 \<leftarrow> price_history, l \<leftarrow> latest price_history,
                   ph_name ph1 = fst l \<and> ph_date ph1 = snd l])"

text \<open>An entry of the list \<^verbatim>\<open>get_product_summary\<close> returns.\<close>

record product_summary =
  ps_name :: string
  ps_url :: string
  ps_platform :: string
  ps_current_price :: real
  ps_original_price :: real
  ps_threshold :: real
  ps_previous_price :: "real option"
  ps_price_change :: "real option"
  ps_price_change_percent :: "real option"
  ps_last_updated :: nat

text \<open>
  Lines 150 to 155: \<^verbatim>\<open>price_change\<close> and \<^verbatim>\<open>price_change_percent\<close>. In the condition
  \<^verbatim>\<open>if previous_price:\<close> both \<^verbatim>\<open>None\<close> and 0 are false.
\<close>

definition price_changes :: "real \<Rightarrow> real option \<Rightarrow> error + (real option \<times> real option)" where
  "price_changes current_price previous_price =
     (case previous_price of
        None \<Rightarrow> Inr (None, None)
      | Some previous \<Rightarrow>
          if previous \<noteq> 0
          then (case py_truediv (current_price - previous) previous of
                  Inl err \<Rightarrow> Inl err
                | Inr q \<Rightarrow> Inr (Some (current_price - previous), Some (q * 100)))
          else Inr (None, None))"

text \<open>
  The loop over the rows; \<^verbatim>\<open>products_dict\<close> is the list of its items in the order of
  insertion.
\<close>

fun summary_loop ::
  "summary_row list \<Rightarrow> (string \<times> product_summary) list
   \<Rightarrow> error + (string \<times> product_summary) list" where
  "summary_loop [] products_dict = Inr products_dict"
| "summary_loop (data # rows) products_dict =
     (let current_price = sr_current_price data;
          previous_price = sr_previous_price data;
          original_price = (case sr_original_price data of
                              None \<Rightarrow> current_price
                            | Some stored \<Rightarrow> if stored \<noteq> 0 then stored else current_price)
      in case price_changes current_price previous_price of
           Inl err \<Rightarrow> Inl err
         | Inr (price_change, price_change_percent) \<Rightarrow>
             (let product_name = sr_name data
              in if product_name \<notin> fst ` set products_dict
                 then summary_loop rows
                        (products_dict @
                         [(product_name,
                           \<lparr> ps_name = product_name, ps_url = sr_url data,
                             ps_platform = sr_platform data, ps_current_price = current_price,
                             ps_original_price = original_price,
                             ps_threshold = sr_threshold data,
                             ps_previous_price = previous_price,
                             ps_price_change = price_change,
                             ps_price_change_percent = price_change_percent,
                             ps_last_updated = sr_date data \<rparr>)])
                 else summary_loop rows products_dict))"

definition get_product_summary :: "price_row list \<Rightarrow> error + product_summary list" where
  "get_product_summary price_history =
     (case summary_loop (summary_query price_history) [] of
        Inl err \<Rightarrow> Inl err
      | Inr products_dict \<Rightarrow> Inr (map snd products_dict))"

section \<open>utils/playwright\_price\_scraper.py\<close>

text \<open>
  The status strings of \<^verbatim>\<open>scrape_product\<close>:
  \<^verbatim>\<open>"[OK] Threshold & Discount Met"\<close>, \<^verbatim>\<open>f"[X] Above threshold by Rs {diff:.2f}"\<close> and
  \<^verbatim>\<open>"[X] No Email (no discount)"\<close>.
\<close>

datatype status = Threshold_and_discount_met | Above_threshold_by real | No_email_no_discount

text \<open>The dict \<^verbatim>\<open>scrape_product\<close> returns.\<close>

record scrape_info =
  si_name :: string
  si_url :: string
  si_current_price :: real
  si_original_price :: real
  si_discount :: real
  si_threshold :: real
  si_status :: status
  si_send_email :: bool

text \<open>What the run prints on the console, one constructor per \<^verbatim>\<open>console.print\<close> call.\<close>

datatype console_line =
    Flipkart_scraped_prices "(real \<times> real) option"
  | Tracked string real real
  | Failed_to_fetch string
  | No_products_to_track
  | Price_table "scrape_info list"
  | Skipping_email

text \<open>
  The modules \<^verbatim>\<open>scrape_amazon\<close>, \<^verbatim>\<open>scrape_flipkart\<close> and \<^verbatim>\<open>email_reports\<close> are not part of
  the sources, and the wall clock is outside the program. They are parameters: \<open>'w\<close> is the
  state of the outside world (the browser page and the clock); an adapter returns the pair
  \<open>(current_price, original_price)\<close> or \<open>None\<close>, and the world after the call.
\<close>

record 'w env =
  scrape_amazon :: "string \<Rightarrow> 'w \<Rightarrow> (real \<times> real) option \<times> 'w"
  scrape_flipkart :: "string \<Rightarrow> 'w \<Rightarrow> (real \<times> real) option \<times> 'w"
  datetime_now :: "'w \<Rightarrow> nat \<times> 'w"

text \<open>Lines 35 to 39 of \<^verbatim>\<open>scrape_product\<close>: the discount in percent.\<close>

definition discount_percent :: "real \<Rightarrow> real \<Rightarrow> error + real" where
  "discount_percent original_price current_price =
     (if original_price > current_price
      then (case float_div (float_sub original_price current_price) original_price of
              Inl e \<Rightarrow> Inl e
            | Inr q \<Rightarrow> Inr (py_round2 (float_mul q 100)))
      else Inr 0)"

text \<open>Lines 35 to 62 of \<^verbatim>\<open>scrape_product\<close>: what it does with the two prices once it has them.\<close>

definition evaluate_prices :: "product \<Rightarrow> string \<Rightarrow> real \<Rightarrow> real \<Rightarrow> error + scrape_info" where
  "evaluate_prices product url current_price original_price =
     (case discount_percent original_price current_price of
        Inl e \<Rightarrow> Inl e
      | Inr discount \<Rightarrow>
          (let send_email = (current_price < original_price \<and> current_price \<le> pr_threshold product);
               status = (if \<not> send_email
                         then (if current_price > pr_threshold product
                               then Above_threshold_by (current_price - pr_threshold product)
                               else No_email_no_discount)
                         else Threshold_and_discount_met)
           in Inr \<lparr> si_name = pr_name product, si_url = url,
                    si_current_price = current_price, si_original_price = original_price,
                    si_discount = discount, si_threshold = pr_threshold product,
                    si_status = status, si_send_email = send_email \<rparr>))"

text \<open>
  \<^verbatim>\<open>scrape_product(page, product)\<close>. The result is an exception, or the returned value
  (\<open>None\<close> or the dict), the world after the call and the lines printed.
\<close>

definition scrape_product ::
  "'w env \<Rightarrow> 'w \<Rightarrow> product \<Rightarrow> error + (scrape_info option \<times> 'w \<times> console_line list)" where
  "scrape_product e page product =
     (let url = pr_url product in
      if contains ''amazon'' url then
        (case scrape_amazon e url page of
           (None, page') \<Rightarrow> Inr (None, page', [])
         | (Some (current_price, original_price), page') \<Rightarrow>
             (case evaluate_prices product url current_price original_price of
                Inl err \<Rightarrow> Inl err
              | Inr info \<Rightarrow> Inr (Some info, page', [])))
      else if contains ''flipkart'' url then
        (case scrape_flipkart e url page of
           (None, page') \<Rightarrow> Inr (None, page', [Flipkart_scraped_prices None])
         | (Some (current_price, original_price), page') \<Rightarrow>
             (case evaluate_prices product url current_price original_price of
                Inl err \<Rightarrow> Inl err
              | Inr info \<Rightarrow>
                  Inr (Some info, page',
                       [Flipkart_scraped_prices (Some (current_price, original_price))])))
      else
        (case evaluate_prices product url 10000000000 10000000000 of
           Inl err \<Rightarrow> Inl err
         | Inr info \<Rightarrow> Inr (Some info, page, [])))"

text \<open>
  The list objects of one run live in a heap, since \<^verbatim>\<open>track_prices\<close> binds two variables
  to one list: a variable holds an address, \<^verbatim>\<open>xs.append(x)\<close> changes the object there.
\<close>

record heap =
  next_addr :: nat
  cells :: "nat \<Rightarrow> scrape_info list"

definition new_list :: "heap \<Rightarrow> nat \<times> heap" where
  "new_list h = (next_addr h, \<lparr> next_addr = Suc (next_addr h), cells = (cells h)(next_addr h := []) \<rparr>)"

definition list_append :: "nat \<Rightarrow> scrape_info \<Rightarrow> heap \<Rightarrow> heap" where
  "list_append a x h = h\<lparr> cells := (cells h)(a := cells h a @ [x]) \<rparr>"

text \<open>
  What a run acts on: the outside world, the table \<^verbatim>\<open>price_history\<close>, the console, and
  the batches \<^verbatim>\<open>send_report\<close> was called with, one entry per call.
\<close>

record 'w run_state =
  world :: 'w
  price_history :: "price_row list"
  console :: "console_line list"
  sent_reports :: "scrape_info list list"

text \<open>
  \<^verbatim>\<open>display_price_table\<close> keeps the first item of each name; the rendering of the table is
  left out.
\<close>

fun unique_results :: "scrape_info list \<Rightarrow> string list \<Rightarrow> scrape_info list" where
  "unique_results [] seen_products = []"
| "unique_results (item # results) seen_products =
     (if si_name item \<notin> set seen_products
      then item # unique_results results (seen_products @ [si_name item])
      else unique_results results seen_products)"

definition display_price_table :: "scrape_info list \<Rightarrow> console_line" where
  "display_price_table results = Price_table (unique_results results [])"

text \<open>The condition of lines 107 to 109, and again of lines 123 and 124.\<close>

definition meets_criteria :: "real \<Rightarrow> real \<Rightarrow> real \<Rightarrow> bool" where
  "meets_criteria current_price original_price threshold \<longleftrightarrow>
     current_price < original_price \<and> current_price \<le> threshold"

text \<open>
  The loop of \<^verbatim>\<open>track_prices\<close> (lines 88 to 112). \<open>results\<close> and \<open>report_details\<close> are
  the addresses the two variables hold. An exception leaves the loop with what has been
  written so far.
\<close>

fun track_loop ::
  "'w env \<Rightarrow> nat \<Rightarrow> nat \<Rightarrow> product list \<Rightarrow> heap \<times> 'w run_state
   \<Rightarrow> (error \<times> heap \<times> 'w run_state) + (heap \<times> 'w run_state)" where
  "track_loop e results report_details [] (h, st) = Inr (h, st)"
| "track_loop e results report_details (product # products) (h, st) =
     (case scrape_product e (world st) product of
        Inl err \<Rightarrow> Inl (err, h, st)
      | Inr (None, page', printed) \<Rightarrow>
          track_loop e results report_details products
            (h, st\<lparr> world := page',
                    console := console st @ printed @ [Failed_to_fetch (pr_name product)] \<rparr>)
      | Inr (Some info, page', printed) \<Rightarrow>
          (let h1 = list_append results info h;
               current_price = si_current_price info;
               (now, page'') = datetime_now e page';
               table = save_price (pr_name product) (pr_url product) (pr_platform product)
                         current_price (pr_threshold product) (Some (si_original_price info))
                         now (price_history st);
               h2 = (if meets_criteria current_price (si_original_price info) (pr_threshold product)
                     then list_append report_details info h1 else h1)
           in track_loop e results report_details products
                (h2, st\<lparr> world := page'', price_history := table,
                         console := console st @ printed @
                           [Tracked (pr_name product) current_price (pr_threshold product)] \<rparr>)))"

text \<open>
  \<^verbatim>\<open>track_prices()\<close>. Line 71, \<^verbatim>\<open>results = report_details = []\<close>, makes one list and
  binds both variables to it. Launching and closing the browser are left to the world.
\<close>

definition track_prices ::
  "'w env \<Rightarrow> catalog \<Rightarrow> 'w run_state \<Rightarrow> (error \<times> 'w run_state) + 'w run_state" where
  "track_prices e file st =
     (case fetch_products file of
        Inl err \<Rightarrow> Inl (err, st)
      | Inr products \<Rightarrow>
          if products = [] then Inr (st\<lparr> console := console st @ [No_products_to_track] \<rparr>)
          else
            (let (a, h0) = new_list \<lparr> next_addr = 0, cells = (\<lambda>_. []) \<rparr>;
                 results = a;
                 report_details = a
             in case track_loop e results report_details products (h0, st) of
                  Inl (err, h, st') \<Rightarrow> Inl (err, st')
                | Inr (h, st1) \<Rightarrow>
                    (let st2 = (if cells h results \<noteq> []
                                then st1\<lparr> console := console st1 @
                                            [display_price_table (cells h results)] \<rparr>
                                else st1);
                         eligible_reports =
                           filter (\<lambda>item. meets_criteria (si_current_price item)
                                             (si_original_price item) (si_threshold item))
                                  (cells h report_details)
                     in if eligible_reports \<noteq> []
                        then Inr (st2\<lparr> sent_reports := sent_reports st2 @ [eligible_reports] \<rparr>)
                        else Inr (st2\<lparr> console := console st2 @ [Skipping_email] \<rparr>))))"

section \<open>Example data\<close>

text \<open>
  A world that is a counter of the calls made to it, read as the clock. The Amazon adapter
  finds the pair \<open>(90, 120)\<close>, or nothing when the address mentions \<^verbatim>\<open>gone\<close>; the
  Flipkart adapter finds \<open>(120, 120)\<close>.
\<close>

definition shop_env :: "nat env" where
  "shop_env =
     \<lparr> scrape_amazon = (\<lambda>url w. (if contains ''gone'' url then None else Some (90, 120), Suc w)),
       scrape_flipkart = (\<lambda>url w. (Some (120, 120), Suc w)),
       datetime_now = (\<lambda>w. (w, Suc w)) \<rparr>"

definition demo_product :: "string \<Rightarrow> string \<Rightarrow> real \<Rightarrow> product" where
  "demo_product name url threshold =
     \<lparr> pr_name = name, pr_url = url, pr_platform = ''shop'', pr_threshold = threshold \<rparr>"

definition demo_row :: "string \<Rightarrow> real \<Rightarrow> nat \<Rightarrow> price_row" where
  "demo_row name price date =
     \<lparr> ph_name = name, ph_url = ''u'', ph_platform = ''shop'', ph_price = price,
       ph_original_price = Some price, ph_threshold = 100, ph_date = date \<rparr>"

section \<open>The rows that \<^verbatim>\<open>fetch_products\<close> keeps\<close>




definition csv_cells ::
  "string option \<Rightarrow> string option \<Rightarrow> string option \<Rightarrow> string option \<Rightarrow> csv_row" where
  "csv_cells name url platform threshold =
     [''name'' \<mapsto> name, ''url'' \<mapsto> url, ''platform'' \<mapsto> platform, ''threshold'' \<mapsto> threshold]"


section \<open>The summary loop without its exceptions\<close>

text \<open>
  The entry that the loop of \<^verbatim>\<open>get_product_summary\<close> stores for a row of the query, and
  one step of the loop: a name that is already a key of \<^verbatim>\<open>products_dict\<close> keeps its entry.
\<close>

definition summary_entry :: "summary_row \<Rightarrow> product_summary" where
  "summary_entry data =
     \<lparr> ps_name = sr_name data, ps_url = sr_url data, ps_platform = sr_platform data,
       ps_current_price = sr_current_price data,
       ps_original_price = (case sr_original_price data of
                              None \<Rightarrow> sr_current_price data
                            | Some stored \<Rightarrow> if stored \<noteq> 0 then stored else sr_current_price data),
       ps_threshold = sr_threshold data,
       ps_previous_price = sr_previous_price data,
       ps_price_change = (case sr_previous_price data of
                            None \<Rightarrow> None
                          | Some previous \<Rightarrow>
                              if previous \<noteq> 0 then Some (sr_current_price data - previous) else None),
       ps_price_change_percent =
         (case sr_previous_price data of
            None \<Rightarrow> None
          | Some previous \<Rightarrow>
              if previous \<noteq> 0
              then Some ((sr_current_price data - previous) / previous * 100) else None),
       ps_last_updated = sr_date data \<rparr>"

definition keep_first :: "summary_row \<Rightarrow> (string \<times> product_summary) list \<Rightarrow> (string \<times> product_summary) list" where
  "keep_first data d = (if sr_name data \<in> fst ` set d then d else d @ [(sr_name data, summary_entry data)])"

definition demo_history :: "price_row list" where
  "demo_history =
     [demo_row ''Widget'' 120 1, demo_row ''Gadget'' 0 2, demo_row ''Widget'' 90 3,
      demo_row ''Gadget'' 5 4, demo_row ''Solo'' 7 5]"

definition demo_summary :: "product_summary list" where
  "demo_summary =
     [\<lparr> ps_name = ''Gadget'', ps_url = ''u'', ps_platform = ''shop'', ps_current_price = 5,
         ps_original_price = 5, ps_threshold = 100, ps_previous_price = Some 0,
         ps_price_change = None, ps_price_change_percent = None, ps_last_updated = 4 \<rparr>,
      \<lparr> ps_name = ''Solo'', ps_url = ''u'', ps_platform = ''shop'', ps_current_price = 7,
         ps_original_price = 7, ps_threshold = 100, ps_previous_price = None,
         ps_price_change = None, ps_price_change_percent = None, ps_last_updated = 5 \<rparr>,
      \<lparr> ps_name = ''Widget'', ps_url = ''u'', ps_platform = ''shop'', ps_current_price = 90,
         ps_original_price = 90, ps_threshold = 100, ps_previous_price = Some 120,
         ps_price_change = Some (-30), ps_price_change_percent = Some (-25),
         ps_last_updated = 3 \<rparr>]"

section \<open>The scrapes of a run\<close>



section \<open>Example runs\<close>

text \<open>
  A run starts in the world 0 with an empty table, and a catalog is given by the name, the
  address and the threshold of each of its rows.
\<close>

definition start :: "nat run_state" where
  "start = \<lparr> world = 0, price_history = [], console = [], sent_reports = [] \<rparr>"

definition catalog_of :: "(string \<times> string \<times> string) list \<Rightarrow> catalog" where
  "catalog_of entries =
     Csv_rows (map (\<lambda>(name, url, threshold).
                      csv_cells (Some name) (Some url) (Some ''shop'') (Some threshold)) entries)"

definition three_products :: "product list" where
  "three_products =
     [demo_product ''Widget'' ''https://www.amazon.in/widget'' 100,
      demo_product ''Ghost'' ''https://www.amazon.in/gone'' 100,
      demo_product ''Kettle'' ''https://www.flipkart.com/kettle'' 200]"

definition three_catalog :: catalog where
  "three_catalog =
     catalog_of [(''Widget'', ''https://www.amazon.in/widget'', ''100''),
                 (''Ghost'', ''https://www.amazon.in/gone'', ''100''),
                 (''Kettle'', ''https://www.flipkart.com/kettle'', ''200'')]"

definition widget_info :: scrape_info where
  "widget_info =
     \<lparr> si_name = ''Widget'', si_url = ''https://www.amazon.in/widget'',
       si_current_price = 90, si_original_price = 120, si_discount = 25, si_threshold = 100,
       si_status = Threshold_and_discount_met, si_send_email = True \<rparr>"


definition widget_row :: price_row where
  "widget_row =
     \<lparr> ph_name = ''Widget'', ph_url = ''https://www.amazon.in/widget'', ph_platform = ''shop'',
       ph_price = 90, ph_original_price = Some 120, ph_threshold = 100, ph_date = 1 \<rparr>"





section \<open>Evaluation rules of \<^verbatim>\<open>scrape_product\<close>\<close>

lemmas float_simps =
  bit_length.simps binary_exponent_def pow2_def round_half_even_def round_to_double_def
  py_round2_def float_sub_def float_mul_def float_div_def Let_def

lemma evaluate_prices_fields:
  assumes "evaluate_prices product url c orig = Inr info"
  shows "si_send_email info = (c < orig \<and> c \<le> pr_threshold product)"
    and "si_current_price info = c"
    and "si_original_price info = orig"
    and "si_threshold info = pr_threshold product"
    and "si_name info = pr_name product"
  using assms by (auto simp: evaluate_prices_def Let_def split: sum.splits)

lemma scrape_product_evaluates:
  assumes "scrape_product e page product = Inr (Some info, page', printed)"
  shows "\<exists>c orig. evaluate_prices product (pr_url product) c orig = Inr info"
  using assms
  by (auto simp: scrape_product_def Let_def split: if_splits prod.splits option.splits sum.splits)

lemma pow2_pos: "0 < pow2 k"
  by (simp add: pow2_def)

lemma round_half_even_nonneg: "0 \<le> x \<Longrightarrow> 0 \<le> round_half_even x"
  by (simp add: round_half_even_def Let_def)

lemma round_to_double_nonneg: "0 \<le> x \<Longrightarrow> 0 \<le> round_to_double x"
  by (simp add: round_to_double_def Let_def pow2_pos round_half_even_nonneg less_imp_le)

lemma py_round2_nonneg: "0 \<le> x \<Longrightarrow> 0 \<le> py_round2 x"
  by (simp add: py_round2_def round_half_even_nonneg round_to_double_nonneg)

lemma discount_120_90: "discount_percent 120 90 = Inr 25"
  by (simp add: discount_percent_def float_simps)

lemma scrape_amazon_demo:
  "scrape_product shop_env 0 (demo_product ''Widget'' ''https://www.amazon.in/widget'' t) =
     Inr (Some \<lparr> si_name = ''Widget'', si_url = ''https://www.amazon.in/widget'',
                 si_current_price = 90, si_original_price = 120, si_discount = 25,
                 si_threshold = t,
                 si_status = (if 90 \<le> t then Threshold_and_discount_met
                              else Above_threshold_by (90 - t)),
                 si_send_email = (90 \<le> t) \<rparr>, 1, [])"
  by (simp add: scrape_product_def shop_env_def demo_product_def evaluate_prices_def
      discount_120_90)

lemma scrape_flipkart_demo:
  "scrape_product shop_env 0 (demo_product ''Widget'' ''https://www.flipkart.com/widget'' t) =
     Inr (Some \<lparr> si_name = ''Widget'', si_url = ''https://www.flipkart.com/widget'',
                 si_current_price = 120, si_original_price = 120, si_discount = 0,
                 si_threshold = t,
                 si_status = (if 120 > t then Above_threshold_by (120 - t)
                              else No_email_no_discount),
                 si_send_email = False \<rparr>, 1, [Flipkart_scraped_prices (Some (120, 120))])"
  by (simp add: scrape_product_def shop_env_def demo_product_def evaluate_prices_def
      discount_percent_def)

text \<open>
  Claim C8. Whenever \<^verbatim>\<open>scrape_product\<close> returns a dict for a product, its
  \<^verbatim>\<open>send_email\<close> is true if and only if the current price is below the original price and
  at most the product's threshold; the dict carries that threshold.
\<close>

theorem scrape_product_send_email:
  assumes "scrape_product e page product = Inr (Some info, page', printed)"
  shows "(si_send_email info \<longleftrightarrow>
            si_current_price info < si_original_price info
            \<and> si_current_price info \<le> si_threshold info)
         \<and> si_threshold info = pr_threshold product"
proof -
  from scrape_product_evaluates [OF assms] obtain c orig
    where ev: "evaluate_prices product (pr_url product) c orig = Inr info" by blast
  show ?thesis
    using evaluate_prices_fields [OF ev] by simp
qed

text \<open>
  The four combinations of the two conditions: price 90 of 120 under the thresholds 100
  and 80, price 120 of 120 under the thresholds 200 and 100.
\<close>

theorem scrape_product_send_email_witness:
  "(\<exists>i. scrape_product shop_env 0 (demo_product ''Widget'' ''https://www.amazon.in/widget'' 100)
          = Inr (Some i, 1, [])
        \<and> si_send_email i \<and> si_current_price i < si_original_price i
        \<and> si_current_price i \<le> si_threshold i)
   \<and> (\<exists>i. scrape_product shop_env 0 (demo_product ''Widget'' ''https://www.amazon.in/widget'' 80)
          = Inr (Some i, 1, [])
        \<and> \<not> si_send_email i \<and> si_current_price i < si_original_price i
        \<and> \<not> si_current_price i \<le> si_threshold i)
   \<and> (\<exists>i p. scrape_product shop_env 0 (demo_product ''Widget'' ''https://www.flipkart.com/widget'' 200)
          = Inr (Some i, 1, p)
        \<and> \<not> si_send_email i \<and> \<not> si_current_price i < si_original_price i
        \<and> si_current_price i \<le> si_threshold i)
   \<and> (\<exists>i p. scrape_product shop_env 0 (demo_product ''Widget'' ''https://www.flipkart.com/widget'' 100)
          = Inr (Some i, 1, p)
        \<and> \<not> si_send_email i \<and> \<not> si_current_price i < si_original_price i
        \<and> \<not> si_current_price i \<le> si_threshold i)"
  using scrape_product_send_email [OF scrape_amazon_demo [of 100]]
    scrape_product_send_email [OF scrape_amazon_demo [of 80]]
    scrape_product_send_email [OF scrape_flipkart_demo [of 200]]
    scrape_product_send_email [OF scrape_flipkart_demo [of 100]]
  by (simp add: scrape_amazon_demo scrape_flipkart_demo)

text \<open>
  Claim C7. For every pair of prices, a price being a number that is not negative (the
  proof needs this of the current price only), the discount is computed without an
  exception; it is \<^verbatim>\<open>round((original - current) / original * 100, 2)\<close>, each operation
  rounded as the machine rounds it, when the original price is above the current price,
  it is exactly 0 when the current price is at least the original price, and it is never
  negative.
\<close>

theorem discount_percent_nonneg:
  assumes "0 \<le> c"
  shows "\<exists>d. discount_percent orig c = Inr d
           \<and> d = (if orig > c
                  then py_round2 (float_mul (round_to_double (float_sub orig c / orig)) 100)
                  else 0)
           \<and> (c \<ge> orig \<longrightarrow> d = 0)
           \<and> 0 \<le> d"
proof (cases "orig > c")
  case True
  with assms have pos: "0 < orig" by simp
  from True have "0 \<le> float_sub orig c"
    by (simp add: float_sub_def round_to_double_nonneg)
  with pos have "0 \<le> round_to_double (float_sub orig c / orig)"
    by (simp add: round_to_double_nonneg)
  then have "0 \<le> float_mul (round_to_double (float_sub orig c / orig)) 100"
    by (simp add: float_mul_def round_to_double_nonneg)
  then have "0 \<le> py_round2 (float_mul (round_to_double (float_sub orig c / orig)) 100)"
    by (rule py_round2_nonneg)
  with True pos show ?thesis
    by (simp add: discount_percent_def float_div_def)
next
  case False
  then show ?thesis
    by (simp add: discount_percent_def)
qed

text \<open>
  The discount of 90 on 120 is 25, of 67 on 160 the double nearest to 58.13 (the quotient
  is rounded up before it is rounded to two decimals), and of 120 on 90 it is 0.
\<close>

theorem discount_percent_nonneg_witness:
  "(0::real) \<le> 90 \<and> discount_percent 120 90 = Inr 25
   \<and> (0::real) \<le> 67 \<and> discount_percent 160 67 = Inr (round_to_double 58.13)
   \<and> (0::real) \<le> 120 \<and> discount_percent 90 120 = Inr 0"
  using discount_percent_nonneg [of 90 120] discount_percent_nonneg [of 67 160]
    discount_percent_nonneg [of 120 90]
  by (simp add: discount_percent_def float_simps)

section \<open>The price history\<close>

lemma sql_max_Max:
  assumes "xs \<noteq> []"
  shows "sql_max xs = Some (Max (set xs))"
proof (cases xs)
  case Nil
  with assms show ?thesis by simp
next
  case (Cons a list)
  then show ?thesis
    using Max.set_eq_fold [of a list] by simp
qed

text \<open>
  Claim C3. When \<^verbatim>\<open>save_price\<close> is called without an original price, for a price that
  is not negative, the row it appends stores as original price the maximum of that price
  and of all prices stored before under that name; when nothing is stored under that name,
  it stores the price itself.
\<close>

theorem save_price_original_price_max:
  assumes "0 \<le> price"
  shows "save_price name url platform price threshold None now t =
           t @ [\<lparr> ph_name = name, ph_url = url, ph_platform = platform, ph_price = price,
                   ph_original_price =
                     Some (Max (insert price (set (map ph_price (rows_named name t))))),
                   ph_threshold = threshold, ph_date = now \<rparr>]
         \<and> (rows_named name t = [] \<longrightarrow>
              Max (insert price (set (map ph_price (rows_named name t)))) = price)"
proof (cases "rows_named name t = []")
  case True
  then show ?thesis by (simp add: save_price_def)
next
  case False
  let ?ps = "map ph_price (rows_named name t)"
  from False have ne: "?ps \<noteq> []" by simp
  then have m: "sql_max ?ps = Some (Max (set ?ps))" by (rule sql_max_Max)
  have mx: "Max (insert price (set ?ps)) = max price (Max (set ?ps))"
    using ne by (simp del: set_map)
  from assms have "\<not> (price < 0 \<and> Max (set ?ps) = 0)" by simp
  then have "(if Max (set ?ps) \<noteq> 0 \<and> Max (set ?ps) > price then Max (set ?ps) else price)
             = max price (Max (set ?ps))"
    by (auto simp: max_def)
  with m mx False show ?thesis
    by (simp add: save_price_def Let_def del: set_map Max_insert)
qed

text \<open>
  Widget at 90 after 120 and 100 keeps 120 as original price, also with a row of another
  product at 500 in between; Widget at 90 with nothing stored has the original price 90.
\<close>

theorem save_price_original_price_max_witness:
  "(0::real) \<le> 90
   \<and> ph_original_price (last (save_price ''Widget'' ''u'' ''shop'' 90 100 None 4
          [demo_row ''Widget'' 120 1, demo_row ''Gadget'' 500 2, demo_row ''Widget'' 100 3]))
       = Some 120
   \<and> ph_original_price (last (save_price ''Widget'' ''u'' ''shop'' 90 100 None 4 [])) = Some 90"
  using save_price_original_price_max [of 90 "''Widget''" "''u''" "''shop''" 100 4
      "[demo_row ''Widget'' 120 1, demo_row ''Gadget'' 500 2, demo_row ''Widget'' 100 3]"]
    save_price_original_price_max [of 90 "''Widget''" "''u''" "''shop''" 100 4 "[]"]
  by (simp add: rows_named_def demo_row_def)

section \<open>The summary\<close>

lemma price_changes_eq:
  "price_changes c prev =
     Inr (case prev of
            None \<Rightarrow> (None, None)
          | Some p \<Rightarrow> if p \<noteq> 0 then (Some (c - p), Some ((c - p) / p * 100)) else (None, None))"
  by (simp add: price_changes_def py_truediv_def split: option.splits)

lemma summary_loop_fold: "summary_loop rows d = Inr (fold keep_first rows d)"
proof (induction rows arbitrary: d)
  case Nil
  show ?case by simp
next
  case (Cons data rows)
  show ?case
    by (simp add: Cons.IH price_changes_eq keep_first_def summary_entry_def Let_def
        split: option.splits)
qed

lemma fold_keep_first_filter:
  "filter (\<lambda>kv. fst kv = n) (fold keep_first rows d) =
     (if n \<in> fst ` set d then filter (\<lambda>kv. fst kv = n) d
      else (case filter (\<lambda>r. sr_name r = n) rows of
              [] \<Rightarrow> []
            | r # _ \<Rightarrow> [(n, summary_entry r)]))"
proof (induction rows arbitrary: d)
  case Nil
  show ?case by (auto simp: filter_empty_conv)
next
  case (Cons data rows)
  let ?d' = "keep_first data d"
  let ?P = "\<lambda>kv :: string \<times> product_summary. fst kv = n"
  have IH: "filter ?P (fold keep_first rows ?d') =
     (if n \<in> fst ` set ?d' then filter ?P ?d'
      else (case filter (\<lambda>r. sr_name r = n) rows of
              [] \<Rightarrow> []
            | r # _ \<Rightarrow> [(n, summary_entry r)]))"
    by (rule Cons.IH)
  show ?case
  proof (cases "n \<in> fst ` set d")
    case True
    then have "n \<in> fst ` set ?d'" and "filter ?P ?d' = filter ?P d"
      by (auto simp: keep_first_def)
    with True IH show ?thesis by simp
  next
    case False
    then have empty: "filter ?P d = []"
      by (auto simp: filter_empty_conv)
    show ?thesis
    proof (cases "sr_name data = n")
      case True
      with False empty have "n \<in> fst ` set ?d'" and "filter ?P ?d' = [(n, summary_entry data)]"
        by (auto simp: keep_first_def)
      with True False IH show ?thesis by simp
    next
      case neq: False
      with False have "n \<notin> fst ` set ?d'"
        by (auto simp: keep_first_def)
      with neq False IH show ?thesis by simp
    qed
  qed
qed

lemma fold_keep_first_names:
  "\<forall>kv \<in> set d. ps_name (snd kv) = fst kv \<Longrightarrow>
   \<forall>kv \<in> set (fold keep_first rows d). ps_name (snd kv) = fst kv"
proof (induction rows arbitrary: d)
  case Nil
  then show ?case by simp
next
  case (Cons data rows)
  show ?case
    by (simp, rule Cons.IH) (use Cons.prems in \<open>auto simp: keep_first_def summary_entry_def\<close>)
qed

lemma get_product_summary_eq:
  "get_product_summary t = Inr (map snd (fold keep_first (summary_query t) []))"
  by (simp add: get_product_summary_def summary_loop_fold)

lemma filter_summary_name:
  "filter (\<lambda>e. ps_name e = n) (map snd (fold keep_first rows [])) =
     (case filter (\<lambda>r. sr_name r = n) rows of [] \<Rightarrow> [] | r # _ \<Rightarrow> [summary_entry r])"
proof -
  have names: "\<forall>kv \<in> set (fold keep_first rows []). ps_name (snd kv) = fst kv"
    by (rule fold_keep_first_names) simp
  have "filter (\<lambda>e. ps_name e = n) (map snd (fold keep_first rows [])) =
          map snd (filter (\<lambda>kv. ps_name (snd kv) = n) (fold keep_first rows []))"
    by (simp add: filter_map comp_def)
  also have "filter (\<lambda>kv. ps_name (snd kv) = n) (fold keep_first rows []) =
          filter (\<lambda>kv. fst kv = n) (fold keep_first rows [])"
    using names by (intro filter_cong) auto
  also have "map snd \<dots> =
      (case filter (\<lambda>r. sr_name r = n) rows of [] \<Rightarrow> [] | r # _ \<Rightarrow> [summary_entry r])"
    by (simp add: fold_keep_first_filter split: list.splits)
  finally show ?thesis .
qed

lemma strict_last_Max:
  fixes f :: "'a \<Rightarrow> nat"
  assumes "xs \<noteq> []" and "sorted_wrt (<) (map f xs)"
  shows "Max (set (map f xs)) = f (last xs)"
proof (cases xs rule: rev_cases)
  case Nil
  with assms show ?thesis by simp
next
  case (snoc ys y)
  with assms have below: "\<forall>x \<in> set ys. f x < f y"
    by (simp add: sorted_wrt_append)
  have "Max (insert (f y) (f ` set ys)) = f y"
  proof (rule Max_eqI)
    show "finite (insert (f y) (f ` set ys))" by simp
    show "\<And>z. z \<in> insert (f y) (f ` set ys) \<Longrightarrow> z \<le> f y"
      using below by auto
    show "f y \<in> insert (f y) (f ` set ys)" by simp
  qed
  with snoc show ?thesis by simp
qed

lemma strict_filter_last:
  fixes f :: "'a \<Rightarrow> nat"
  assumes "xs \<noteq> []" and "sorted_wrt (<) (map f xs)"
  shows "filter (\<lambda>x. f x = f (last xs)) xs = [last xs]"
proof (cases xs rule: rev_cases)
  case Nil
  with assms show ?thesis by simp
next
  case (snoc ys y)
  with assms have below: "\<forall>x \<in> set ys. f x < f y"
    by (simp add: sorted_wrt_append)
  then have "filter (\<lambda>x. f x = f y) ys = []"
    by (auto simp: filter_empty_conv)
  with snoc show ?thesis by simp
qed

lemma sort_key_snoc_least:
  assumes "\<forall>x \<in> set ys. f y < f x"
  shows "sort_key f (ys @ [y]) = y # sort_key f ys"
proof -
  have "foldr (insort_key f) ys [y] = y # foldr (insort_key f) ys []"
    using assms
  proof (induction ys)
    case Nil
    show ?case by simp
  next
    case (Cons a ys)
    then have "foldr (insort_key f) ys [y] = y # foldr (insort_key f) ys []"
      and "\<not> f a \<le> f y"
      by auto
    then show ?case by simp
  qed
  then show ?thesis by (simp add: sort_key_def)
qed

lemma order_by_date_desc_increasing:
  assumes "sorted_wrt (<) (map ph_date rows)"
  shows "order_by_date_desc rows = rev rows"
  using assms
proof (induction rows rule: rev_induct)
  case Nil
  show ?case by (simp add: order_by_date_desc_def)
next
  case (snoc y ys)
  then have earlier: "\<forall>x \<in> set ys. ph_date x < ph_date y"
    and sorted: "sorted_wrt (<) (map ph_date ys)"
    by (simp_all add: sorted_wrt_append)
  from earlier have "\<forall>x \<in> set ys. - int (ph_date y) < - int (ph_date x)"
    by simp
  then have "sort_key (\<lambda>r. - int (ph_date r)) (ys @ [y]) =
      y # sort_key (\<lambda>r. - int (ph_date r)) ys"
    by (rule sort_key_snoc_least)
  with snoc.IH [OF sorted] show ?case
    by (simp add: order_by_date_desc_def)
qed

lemma second_from_the_end:
  "(case drop 1 (rev xs) of [] \<Rightarrow> None | r # _ \<Rightarrow> Some (g r)) =
     (if 2 \<le> length xs then Some (g (xs ! (length xs - 2))) else None)"
proof (cases xs rule: rev_cases)
  case Nil
  then show ?thesis by simp
next
  case (snoc ys a)
  show ?thesis
  proof (cases ys rule: rev_cases)
    case Nil
    with snoc show ?thesis by simp
  next
    case (snoc zs b)
    with \<open>xs = ys @ [a]\<close> show ?thesis
      by (simp add: nth_append)
  qed
qed

lemma previous_price_of_increasing:
  assumes "sorted_wrt (<) (map ph_date (rows_named n t))"
  shows "previous_price_of t n =
     (if 2 \<le> length (rows_named n t)
      then Some (ph_price (rows_named n t ! (length (rows_named n t) - 2))) else None)"
  by (simp only: previous_price_of_def order_by_date_desc_increasing [OF assms]
      second_from_the_end)

lemma filter_keyed:
  assumes "distinct ns"
  shows "filter (\<lambda>l. a = fst l \<and> b = snd l) (map (\<lambda>n. (n, g n)) ns) =
     (if a \<in> set ns \<and> b = g a then [(a, g a)] else [])"
  using assms by (induction ns) auto

lemma concat_if_singleton:
  "concat (map (\<lambda>l. if P l then [c] else []) ls) = map (\<lambda>_. c) (filter P ls)"
  by (induction ls) auto

lemma concat_if_map_filter:
  "concat (map (\<lambda>x. if P x then [f x] else []) xs) = map f (filter P xs)"
  by (induction xs) auto

lemma join_latest:
  "[select_columns t ph1. ph1 \<leftarrow> t, l \<leftarrow> latest t, ph_name ph1 = fst l \<and> ph_date ph1 = snd l] =
     map (select_columns t)
       (filter (\<lambda>ph1. ph_date ph1 = Max (set (map ph_date (rows_named (ph_name ph1) t)))) t)"
proof -
  have inner: "concat (map (\<lambda>l. if ph_name ph1 = fst l \<and> ph_date ph1 = snd l
                                  then [select_columns t ph1] else []) (latest t)) =
      (if ph_date ph1 = Max (set (map ph_date (rows_named (ph_name ph1) t)))
       then [select_columns t ph1] else [])" if "ph1 \<in> set t" for ph1
  proof -
    have "filter (\<lambda>l. ph_name ph1 = fst l \<and> ph_date ph1 = snd l) (latest t) =
        (if ph_name ph1 \<in> set (remdups (map ph_name t))
            \<and> ph_date ph1 = Max (set (map ph_date (rows_named (ph_name ph1) t)))
         then [(ph_name ph1, Max (set (map ph_date (rows_named (ph_name ph1) t))))] else [])"
      unfolding latest_def by (rule filter_keyed) simp
    moreover from that have "ph_name ph1 \<in> set (remdups (map ph_name t))"
      by simp
    ultimately show ?thesis
      by (simp add: concat_if_singleton del: set_map set_remdups)
  qed
  have "concat (map (\<lambda>ph1. concat (map (\<lambda>l. if ph_name ph1 = fst l \<and> ph_date ph1 = snd l
                                  then [select_columns t ph1] else []) (latest t))) t) =
        concat (map (\<lambda>ph1. if ph_date ph1 = Max (set (map ph_date (rows_named (ph_name ph1) t)))
                            then [select_columns t ph1] else []) t)"
    using inner by (intro arg_cong [where f = concat] map_cong) auto
  also have "\<dots> = map (select_columns t)
       (filter (\<lambda>ph1. ph_date ph1 = Max (set (map ph_date (rows_named (ph_name ph1) t)))) t)"
    by (rule concat_if_map_filter)
  finally show ?thesis by simp
qed


lemma select_columns_name [simp]: "sr_name (select_columns t r) = ph_name r"
  by (simp add: select_columns_def)

lemma summary_query_name:
  assumes ne: "rows_named n t \<noteq> []"
    and inc: "sorted_wrt (<) (map ph_date (rows_named n t))"
  shows "filter (\<lambda>s. sr_name s = n) (summary_query t) =
           [select_columns t (last (rows_named n t))]"
proof -
  let ?Q = "\<lambda>ph1. ph_date ph1 = Max (set (map ph_date (rows_named (ph_name ph1) t)))"
  let ?obs = "rows_named n t"
  have "filter (\<lambda>r. ph_name r = n) (filter ?Q t) =
        filter (\<lambda>r. ph_date r = Max (set (map ph_date ?obs))) ?obs"
    unfolding rows_named_def filter_filter by (rule filter_cong) auto
  also have "\<dots> = filter (\<lambda>r. ph_date r = ph_date (last ?obs)) ?obs"
    by (simp only: strict_last_Max [OF ne inc])
  also have "\<dots> = [last ?obs]"
    by (rule strict_filter_last [OF ne inc])
  finally have one: "filter (\<lambda>r. ph_name r = n) (filter ?Q t) = [last ?obs]" .
  have "filter (\<lambda>s. sr_name s = n) (summary_query t) =
        sort_key sr_name (remdups (filter (\<lambda>s. sr_name s = n)
          (map (select_columns t) (filter ?Q t))))"
    by (simp only: summary_query_def join_latest filter_sort remdups_filter)
  also have "filter (\<lambda>s. sr_name s = n) (map (select_columns t) (filter ?Q t)) =
        map (select_columns t) (filter (\<lambda>r. ph_name r = n) (filter ?Q t))"
    by (simp add: filter_map comp_def)
  finally show ?thesis
    by (simp only: one) simp
qed

lemma summary_for_name:
  assumes ne: "rows_named n t \<noteq> []"
    and inc: "sorted_wrt (<) (map ph_date (rows_named n t))"
  shows "\<exists>es. get_product_summary t = Inr es
           \<and> filter (\<lambda>e. ps_name e = n) es =
               [summary_entry (select_columns t (last (rows_named n t)))]"
  by (simp add: get_product_summary_eq filter_summary_name summary_query_name [OF ne inc])

lemma fold_keep_first_set:
  "set (fold keep_first rows d) \<subseteq> set d \<union> (\<lambda>r. (sr_name r, summary_entry r)) ` set rows"
proof (induction rows arbitrary: d)
  case Nil
  show ?case by simp
next
  case (Cons data rows)
  have "set (keep_first data d) \<subseteq> set d \<union> {(sr_name data, summary_entry data)}"
    by (auto simp: keep_first_def)
  with Cons.IH [of "keep_first data d"] show ?case by auto
qed

lemma summary_entries:
  "\<exists>es. get_product_summary t = Inr es
        \<and> (\<forall>e \<in> set es. \<exists>r \<in> set (summary_query t). e = summary_entry r)"
proof -
  have "\<forall>e \<in> set (map snd (fold keep_first (summary_query t) [])).
          \<exists>r \<in> set (summary_query t). e = summary_entry r"
    using fold_keep_first_set [of "summary_query t" "[]"] by fastforce
  then show ?thesis
    by (simp only: get_product_summary_eq) blast
qed

lemma summary_fields_for_name:
  assumes ne: "rows_named n t \<noteq> []"
    and inc: "sorted_wrt (<) (map ph_date (rows_named n t))"
  shows "\<exists>es e. get_product_summary t = Inr es
           \<and> filter (\<lambda>e. ps_name e = n) es = [e]
           \<and> e = summary_entry (select_columns t (last (rows_named n t)))
           \<and> ps_current_price e = ph_price (last (rows_named n t))
           \<and> ps_previous_price e =
               (if 2 \<le> length (rows_named n t)
                then Some (ph_price (rows_named n t ! (length (rows_named n t) - 2)))
                else None)"
proof -
  from summary_for_name [OF ne inc] obtain es
    where es: "get_product_summary t = Inr es"
      and one: "filter (\<lambda>e. ps_name e = n) es =
                  [summary_entry (select_columns t (last (rows_named n t)))]"
    by blast
  let ?e = "summary_entry (select_columns t (last (rows_named n t)))"
  from ne have "last (rows_named n t) \<in> set (rows_named n t)" by simp
  then have name: "ph_name (last (rows_named n t)) = n"
    by (simp add: rows_named_def)
  have cur: "ps_current_price ?e = ph_price (last (rows_named n t))"
    by (simp add: summary_entry_def select_columns_def)
  have "ps_previous_price ?e = previous_price_of t n"
    by (simp add: summary_entry_def select_columns_def name)
  then have prev: "ps_previous_price ?e =
      (if 2 \<le> length (rows_named n t)
       then Some (ph_price (rows_named n t ! (length (rows_named n t) - 2))) else None)"
    by (simp only: previous_price_of_increasing [OF inc])
  from es one cur prev show ?thesis by blast
qed

lemma summary_entry_changes:
  "ps_price_change (summary_entry r) =
     (case ps_previous_price (summary_entry r) of
        None \<Rightarrow> None
      | Some p \<Rightarrow> if p \<noteq> 0 then Some (ps_current_price (summary_entry r) - p) else None)"
  "ps_price_change_percent (summary_entry r) =
     (case ps_previous_price (summary_entry r) of
        None \<Rightarrow> None
      | Some p \<Rightarrow>
          if p \<noteq> 0 then Some ((ps_current_price (summary_entry r) - p) / p * 100) else None)"
  by (simp_all add: summary_entry_def split: option.splits)

lemma demo_history_summary: "get_product_summary demo_history = Inr demo_summary"
  by (simp add: get_product_summary_def summary_query_def latest_def rows_named_def demo_row_def
      select_columns_def previous_price_of_def order_by_date_desc_def price_changes_def
      py_truediv_def demo_history_def demo_summary_def Let_def)

text \<open>
  Claim C4. For a product whose \<open>N \<ge> 1\<close> observations have strictly increasing
  timestamps, the summary is computed without an exception and has exactly one entry of
  that name; its current price is the price of the latest observation and its previous
  price is the price of the observation before the latest when \<open>N \<ge> 2\<close>, and
  \<^verbatim>\<open>None\<close> when \<open>N = 1\<close>.
\<close>

theorem summary_previous_price:
  assumes "rows_named n t \<noteq> []"
    and "sorted_wrt (<) (map ph_date (rows_named n t))"
  shows "\<exists>es e. get_product_summary t = Inr es
           \<and> filter (\<lambda>e. ps_name e = n) es = [e]
           \<and> ps_current_price e = ph_price (last (rows_named n t))
           \<and> ps_previous_price e =
               (if 2 \<le> length (rows_named n t)
                then Some (ph_price (rows_named n t ! (length (rows_named n t) - 2)))
                else None)"
  using summary_fields_for_name [OF assms] by blast

text \<open>In the example history Widget has the prices 120 and 90, and Solo the price 7 only.\<close>

theorem summary_previous_price_witness:
  "rows_named ''Widget'' demo_history \<noteq> []
   \<and> sorted_wrt (<) (map ph_date (rows_named ''Widget'' demo_history))
   \<and> map ps_previous_price (filter (\<lambda>e. ps_name e = ''Widget'') demo_summary) = [Some 120]
   \<and> rows_named ''Solo'' demo_history \<noteq> []
   \<and> sorted_wrt (<) (map ph_date (rows_named ''Solo'' demo_history))
   \<and> map ps_previous_price (filter (\<lambda>e. ps_name e = ''Solo'') demo_summary) = [None]"
proof -
  have widget: "rows_named ''Widget'' demo_history =
      [demo_row ''Widget'' 120 1, demo_row ''Widget'' 90 3]"
    and solo: "rows_named ''Solo'' demo_history = [demo_row ''Solo'' 7 5]"
    by (simp_all add: rows_named_def demo_history_def demo_row_def)
  have w: "rows_named ''Widget'' demo_history \<noteq> []"
    "sorted_wrt (<) (map ph_date (rows_named ''Widget'' demo_history))"
    and s: "rows_named ''Solo'' demo_history \<noteq> []"
    "sorted_wrt (<) (map ph_date (rows_named ''Solo'' demo_history))"
    by (simp_all add: widget solo demo_row_def)
  from summary_previous_price [OF w] obtain es e
    where "get_product_summary demo_history = Inr es"
      and "filter (\<lambda>e. ps_name e = ''Widget'') es = [e]"
      and "ps_previous_price e =
        (if 2 \<le> length (rows_named ''Widget'' demo_history)
         then Some (ph_price (rows_named ''Widget'' demo_history !
                (length (rows_named ''Widget'' demo_history) - 2)))
         else None)"
    by blast
  then have a: "map ps_previous_price (filter (\<lambda>e. ps_name e = ''Widget'') demo_summary)
      = [Some 120]"
    by (simp add: demo_history_summary widget demo_row_def)
  from summary_previous_price [OF s] obtain es e
    where "get_product_summary demo_history = Inr es"
      and "filter (\<lambda>e. ps_name e = ''Solo'') es = [e]"
      and "ps_previous_price e =
        (if 2 \<le> length (rows_named ''Solo'' demo_history)
         then Some (ph_price (rows_named ''Solo'' demo_history !
                (length (rows_named ''Solo'' demo_history) - 2)))
         else None)"
    by blast
  then have b: "map ps_previous_price (filter (\<lambda>e. ps_name e = ''Solo'') demo_summary)
      = [None]"
    by (simp add: demo_history_summary solo demo_row_def)
  from w s a b show ?thesis by blast
qed

text \<open>
  Claim C5 fails on the code. Widget has two observations, the price 0 and then the price
  10: its summary entry has the previous price 0 and the current price 10, and its price
  change is \<^verbatim>\<open>None\<close> where the claim has 10 - 0. The condition \<^verbatim>\<open>if previous_price:\<close> is
  false for the price 0 as it is for \<^verbatim>\<open>None\<close>.
\<close>

theorem summary_price_change_previous_zero:
  "get_product_summary [demo_row ''Widget'' 0 1, demo_row ''Widget'' 10 2] =
     Inr [\<lparr> ps_name = ''Widget'', ps_url = ''u'', ps_platform = ''shop'',
            ps_current_price = 10, ps_original_price = 10, ps_threshold = 100,
            ps_previous_price = Some 0, ps_price_change = None,
            ps_price_change_percent = None, ps_last_updated = 2 \<rparr>]"
  by (simp add: get_product_summary_def summary_query_def latest_def rows_named_def demo_row_def
      select_columns_def previous_price_of_def order_by_date_desc_def price_changes_def
      py_truediv_def Let_def)

text \<open>
  Claim C6. \<^verbatim>\<open>get_product_summary\<close> never raises, whatever the table holds. In every entry
  it returns, the percentage is \<^verbatim>\<open>None\<close> when the previous price is 0, and
  \<^verbatim>\<open>(current_price - previous_price) / previous_price * 100\<close> when the previous price is
  not 0.
\<close>

theorem summary_price_change_percent:
  "\<exists>es. get_product_summary t = Inr es
     \<and> (\<forall>e \<in> set es.
          (ps_previous_price e = Some 0 \<longrightarrow> ps_price_change_percent e = None)
          \<and> (\<forall>p. ps_previous_price e = Some p \<and> p \<noteq> 0 \<longrightarrow>
                 ps_price_change_percent e = Some ((ps_current_price e - p) / p * 100)))"
proof -
  from summary_entries [of t] obtain es
    where es: "get_product_summary t = Inr es"
      and rows: "\<forall>e \<in> set es. \<exists>r \<in> set (summary_query t). e = summary_entry r"
    by blast
  have "(ps_previous_price e = Some 0 \<longrightarrow> ps_price_change_percent e = None)
          \<and> (\<forall>p. ps_previous_price e = Some p \<and> p \<noteq> 0 \<longrightarrow>
                 ps_price_change_percent e = Some ((ps_current_price e - p) / p * 100))"
    if "e \<in> set es" for e
  proof -
    from rows that obtain r where "e = summary_entry r" by blast
    then show ?thesis
      by (simp add: summary_entry_changes(2))
  qed
  with es show ?thesis by blast
qed

text \<open>
  In the summary of the example history the entry of Gadget has the previous price 0, and
  the entry of Widget the previous price 120 and the current price 90.
\<close>

theorem summary_price_change_percent_witness:
  "get_product_summary demo_history = Inr demo_summary
   \<and> ps_previous_price (demo_summary ! 0) = Some 0
   \<and> ps_price_change_percent (demo_summary ! 0) = None
   \<and> ps_previous_price (demo_summary ! 2) = Some 120
   \<and> ps_price_change_percent (demo_summary ! 2) = Some ((90 - 120) / 120 * 100)"
proof -
  from summary_price_change_percent [of demo_history]
  have every: "\<forall>e \<in> set demo_summary.
          (ps_previous_price e = Some 0 \<longrightarrow> ps_price_change_percent e = None)
          \<and> (\<forall>p. ps_previous_price e = Some p \<and> p \<noteq> 0 \<longrightarrow>
                 ps_price_change_percent e = Some ((ps_current_price e - p) / p * 100))"
    by (simp add: demo_history_summary)
  have members: "demo_summary ! 0 \<in> set demo_summary" "demo_summary ! 2 \<in> set demo_summary"
    by (simp_all add: demo_summary_def)
  have prev: "ps_previous_price (demo_summary ! 0) = Some 0"
    "ps_previous_price (demo_summary ! 2) = Some 120"
    "ps_current_price (demo_summary ! 2) = 90"
    by (simp_all add: demo_summary_def)
  from every members(1) prev(1) have a: "ps_price_change_percent (demo_summary ! 0) = None"
    by blast
  from every members(2) prev(2)
  have "ps_price_change_percent (demo_summary ! 2)
      = Some ((ps_current_price (demo_summary ! 2) - 120) / 120 * 100)"
    by force
  with prev(3) have b: "ps_price_change_percent (demo_summary ! 2) = Some ((90 - 120) / 120 * 100)"
    by simp
  from demo_history_summary prev a b show ?thesis by blast
qed

section \<open>The catalog\<close>









section \<open>One tracking run\<close>

lemmas run_simps =
  track_prices_def fetch_products_def catalog_of_def csv_cells_def re_sub_non_numeric_def
  is_digit_def py_float_def decimal_def digit_value_def strip_def is_space_def lower_def upper_case_def lower_case_def
  py_str_def present_def cell_def new_list_def start_def Let_def
  demo_product_def scrape_product_def shop_env_def evaluate_prices_def discount_percent_def
  float_simps list_append_def save_price_def
  meets_criteria_def display_price_table_def


lemma track_loop_sent_reports:
  "track_loop e results report_details ps (h, st) = Inr (h', st')
   \<Longrightarrow> sent_reports st' = sent_reports st"
proof (induction ps arbitrary: h st)
  case Nil
  then show ?case by simp
next
  case (Cons p ps)
  from Cons.prems show ?case
    by (auto simp: Let_def split: sum.splits prod.splits option.splits dest!: Cons.IH)
qed

lemma track_prices_batch:
  assumes "track_prices e source st = Inr st'"
  shows "\<forall>batch \<in> set (drop (length (sent_reports st)) (sent_reports st')).
           \<forall>item \<in> set batch. si_current_price item < si_original_price item"
  using assms
  by (auto simp: track_prices_def Let_def new_list_def meets_criteria_def
      split: sum.splits if_splits prod.splits dest!: track_loop_sent_reports)

lemma evaluate_placeholder:
  "evaluate_prices product url 10000000000 10000000000 =
     Inr \<lparr> si_name = pr_name product, si_url = url,
           si_current_price = 10000000000, si_original_price = 10000000000,
           si_discount = 0, si_threshold = pr_threshold product,
           si_status = (if 10000000000 > pr_threshold product
                        then Above_threshold_by (10000000000 - pr_threshold product)
                        else No_email_no_discount),
           si_send_email = False \<rparr>"
  by (simp add: evaluate_prices_def discount_percent_def)

text \<open>
  What the loop does with a product whose address contains neither \<^verbatim>\<open>amazon\<close> nor
  \<^verbatim>\<open>flipkart\<close>: \<^verbatim>\<open>scrape_product\<close> calls no adapter and returns a dict with the values
  its variables were initialised with, the loop appends a row with them to the table and
  goes on; the dict is in no batch handed to \<^verbatim>\<open>send_report\<close>.
\<close>

lemma unknown_platform_placeholder:
  assumes "\<not> contains ''amazon'' (pr_url product)"
    and "\<not> contains ''flipkart'' (pr_url product)"
  shows "\<exists>info. scrape_product e (world st) product = Inr (Some info, world st, [])
      \<and> si_name info = pr_name product
      \<and> si_current_price info = 10000000000 \<and> si_original_price info = 10000000000
      \<and> si_discount info = 0 \<and> \<not> si_send_email info
      \<and> track_loop e results report_details (product # products) (h, st) =
          track_loop e results report_details products
            (list_append results info h,
             st\<lparr> world := snd (datetime_now e (world st)),
                 price_history := price_history st @
                   [\<lparr> ph_name = pr_name product, ph_url = pr_url product,
                       ph_platform = pr_platform product, ph_price = 10000000000,
                       ph_original_price = Some 10000000000,
                       ph_threshold = pr_threshold product,
                       ph_date = fst (datetime_now e (world st)) \<rparr>],
                 console := console st @
                   [Tracked (pr_name product) 10000000000 (pr_threshold product)] \<rparr>)
      \<and> (\<forall>source st0 st'. track_prices e source st0 = Inr st' \<longrightarrow>
            (\<forall>batch \<in> set (drop (length (sent_reports st0)) (sent_reports st')).
               info \<notin> set batch))"
proof -
  let ?info = "\<lparr> si_name = pr_name product, si_url = pr_url product,
           si_current_price = 10000000000, si_original_price = 10000000000,
           si_discount = 0, si_threshold = pr_threshold product,
           si_status = (if 10000000000 > pr_threshold product
                        then Above_threshold_by (10000000000 - pr_threshold product)
                        else No_email_no_discount),
           si_send_email = False \<rparr>"
  have scrape: "scrape_product e (world st) product = Inr (Some ?info, world st, [])"
    using assms by (simp add: scrape_product_def evaluate_placeholder)
  have step: "track_loop e results report_details (product # products) (h, st) =
          track_loop e results report_details products
            (list_append results ?info h,
             st\<lparr> world := snd (datetime_now e (world st)),
                 price_history := price_history st @
                   [\<lparr> ph_name = pr_name product, ph_url = pr_url product,
                       ph_platform = pr_platform product, ph_price = 10000000000,
                       ph_original_price = Some 10000000000,
                       ph_threshold = pr_threshold product,
                       ph_date = fst (datetime_now e (world st)) \<rparr>],
                 console := console st @
                   [Tracked (pr_name product) 10000000000 (pr_threshold product)] \<rparr>)"
    by (simp add: scrape meets_criteria_def save_price_def Let_def split: prod.splits)
  have never: "info \<notin> set batch"
    if "track_prices e source st0 = Inr st'"
      and "batch \<in> set (drop (length (sent_reports st0)) (sent_reports st'))"
      and "info = ?info"
    for source st0 st' batch info
  proof
    assume "info \<in> set batch"
    with track_prices_batch [OF that(1)] that(2)
    have "si_current_price info < si_original_price info" by blast
    with that(3) show False by simp
  qed
  have fields: "si_name ?info = pr_name product"
    "si_current_price ?info = 10000000000" "si_original_price ?info = 10000000000"
    "si_discount ?info = 0" "\<not> si_send_email ?info"
    by simp_all
  from scrape fields step never show ?thesis by blast
qed

text \<open>
  Claim C1 fails on the code. In the run of a catalog that holds only the product Lamp of
  an unknown shop, and in the run of a catalog that holds only a product whose address
  spells the shop \<^verbatim>\<open>AMAZON\<close>, no adapter is called and no failure is printed: the run
  writes a row with the price \<open>10\<^sup>1\<^sup>0\<close>, the value \<^verbatim>\<open>current_price\<close> was initialised
  with, and prints the product as tracked. The claim has no row for such a product.
\<close>

theorem unknown_platform_run:
  "track_prices shop_env (catalog_of [(''Lamp'', ''https://www.example.com/lamp'', ''100'')]) start
   = Inr \<lparr> world = 1,
          price_history =
            [\<lparr> ph_name = ''Lamp'', ph_url = ''https://www.example.com/lamp'',
                ph_platform = ''shop'', ph_price = 10000000000,
                ph_original_price = Some 10000000000, ph_threshold = 100, ph_date = 0 \<rparr>],
          console =
            [Tracked ''Lamp'' 10000000000 100,
             Price_table
               [\<lparr> si_name = ''Lamp'', si_url = ''https://www.example.com/lamp'',
                   si_current_price = 10000000000, si_original_price = 10000000000,
                   si_discount = 0, si_threshold = 100,
                   si_status = Above_threshold_by 9999999900, si_send_email = False \<rparr>],
             Skipping_email],
          sent_reports = [] \<rparr>
   \<and> track_prices shop_env (catalog_of [(''Lamp'', ''https://www.AMAZON.in/lamp'', ''100'')]) start
   = Inr \<lparr> world = 1,
          price_history =
            [\<lparr> ph_name = ''Lamp'', ph_url = ''https://www.AMAZON.in/lamp'',
                ph_platform = ''shop'', ph_price = 10000000000,
                ph_original_price = Some 10000000000, ph_threshold = 100, ph_date = 0 \<rparr>],
          console =
            [Tracked ''Lamp'' 10000000000 100,
             Price_table
               [\<lparr> si_name = ''Lamp'', si_url = ''https://www.AMAZON.in/lamp'',
                   si_current_price = 10000000000, si_original_price = 10000000000,
                   si_discount = 0, si_threshold = 100,
                   si_status = Above_threshold_by 9999999900, si_send_email = False \<rparr>],
             Skipping_email],
          sent_reports = [] \<rparr>"
  by (simp add: run_simps)

text \<open>
  Claim C2 fails on the code. The run of a catalog that holds only the product Widget,
  found at 90 of 120 under the threshold 100, calls \<^verbatim>\<open>send_report\<close> once, with a batch that
  holds the dict of Widget twice: \<^verbatim>\<open>results\<close> and \<^verbatim>\<open>report_details\<close> are one list, so
  both \<^verbatim>\<open>append\<close> calls of the loop add to it.
\<close>

theorem track_prices_batch_duplicates:
  "track_prices shop_env (catalog_of [(''Widget'', ''https://www.amazon.in/widget'', ''100'')]) start
   = Inr \<lparr> world = 2, price_history = [widget_row],
          console = [Tracked ''Widget'' 90 100, Price_table [widget_info]],
          sent_reports = [[widget_info, widget_info]] \<rparr>"
  by (simp add: run_simps widget_info_def widget_row_def)

lemma three_fetch: "fetch_products three_catalog = Inr three_products"
  by (simp add: fetch_products_def three_catalog_def catalog_of_def csv_cells_def
      re_sub_non_numeric_def is_digit_def py_float_def decimal_def digit_value_def strip_def
      is_space_def lower_def upper_case_def lower_case_def py_str_def present_def cell_def demo_product_def three_products_def)












end
